theory Spec2Isabelle
  imports Main "HOL-Library.Char_ord" "HOL-Library.List_Lexorder"
begin

section \<open>Data model\<close>

text \<open>
  Modelled from the spec: the kind of an entry. The type of \<^verbatim>\<open>WalkerEntry\<close> is declared
  by the imported library, not in the sources; the source only compares the result of
  \<^verbatim>\<open>type()\<close> with \<^verbatim>\<open>"tree"\<close>. Section 3 of the specification gives an entry the
  kinds blob and tree.
\<close>

datatype entry_type = Blob | Tree

text \<open>
  Modelled from the spec: an entry. The walker hands the callback an entry for each side
  of a path, or nothing when the side has no entry there (\<^verbatim>\<open>WalkerEntry | null\<close>).
  The source reads an entry only through \<^verbatim>\<open>type()\<close>, \<^verbatim>\<open>mode()\<close>, \<^verbatim>\<open>oid()\<close> and
  \<^verbatim>\<open>content()\<close>; an entry is the record of the values these accessors resolve to.
  As in section 3 of the specification, the mode is an optional number, the content
  identity is always there, and the content is the text the bytes of the blob decode to
  (absent when the accessor yields nothing).
\<close>

record entry =
  etype :: entry_type
  mode :: "int option"
  oid :: string
  content :: "string option"

text \<open>The object returned by the callback for a changed path.\<close>

record change_record =
  diff :: string
  new_path :: "string option"
  old_path :: "string option"
  a_mode :: "string option"
  b_mode :: "string option"
  new_file :: bool
  renamed_file :: bool
  deleted_file :: bool

text \<open>The local variable \<^verbatim>\<open>type\<close> of the callback.\<close>

datatype change_type = Add | Equal | Modify | Remove

text \<open>
  The two \<^verbatim>\<open>throw\<close> statements of the callback. \<open>IntegrityError\<close> carries the path
  of the message "Something weird happened while trying to walk on: ...";
  \<open>UnsupportedChangeKind\<close> is the \<^verbatim>\<open>default\<close> branch of the \<^verbatim>\<open>switch\<close>.
\<close>

datatype error = IntegrityError string | UnsupportedChangeKind

section \<open>JavaScript primitives used by the source\<close>

definition newline :: char where
  "newline = CHR 0x0A"

text \<open>\<^verbatim>\<open>s.split("\n")\<close>: the pieces between line feeds; the empty text has one piece.\<close>

fun split_nl :: "string \<Rightarrow> string list" where
  "split_nl [] = [[]]"
| "split_nl (c # cs) =
     (if c = newline then [] # split_nl cs
      else (case split_nl cs of [] \<Rightarrow> [[c]] | l # ls \<Rightarrow> (c # l) # ls))"

text \<open>\<^verbatim>\<open>ls.join("\n")\<close>.\<close>

fun join_nl :: "string list \<Rightarrow> string" where
  "join_nl [] = []"
| "join_nl [l] = l"
| "join_nl (l # l' # ls) = l @ newline # join_nl (l' # ls)"

text \<open>\<^verbatim>\<open>String(n)\<close> for an integral number: its decimal digits, with a sign.\<close>

fun digits :: "nat \<Rightarrow> string" where
  "digits n = (if n < 10 then [''0123456789'' ! n]
               else digits (n div 10) @ [''0123456789'' ! (n mod 10)])"

declare digits.simps [simp del]

definition decimal :: "int \<Rightarrow> string" where
  "decimal i = (if i < 0 then CHR ''-'' # digits (nat (- i)) else digits (nat i))"

text \<open>\<^verbatim>\<open>String(x)\<close> where \<^verbatim>\<open>x\<close> is a number or \<^verbatim>\<open>undefined\<close>.\<close>

definition js_String :: "int option \<Rightarrow> string" where
  "js_String x = (case x of None \<Rightarrow> ''undefined'' | Some i \<Rightarrow> decimal i)"

text \<open>Truthiness of a number or \<^verbatim>\<open>undefined\<close>: \<^verbatim>\<open>undefined\<close> and \<^verbatim>\<open>0\<close> are falsy.\<close>

definition truthy :: "int option \<Rightarrow> bool" where
  "truthy x = (case x of None \<Rightarrow> False | Some i \<Rightarrow> i \<noteq> 0)"

text \<open>\<^verbatim>\<open>x ?? ""\<close>.\<close>

definition or_empty :: "string option \<Rightarrow> string" where
  "or_empty x = (case x of None \<Rightarrow> [] | Some s \<Rightarrow> s)"

section \<open>The callback of the walk\<close>

text \<open>\<^verbatim>\<open>removeNoiseFromPatch\<close>: \<^verbatim>\<open>patch.split("\n").slice(2).join("\n")\<close>.\<close>

definition removeNoiseFromPatch :: "string \<Rightarrow> string" where
  "removeNoiseFromPatch patch = join_nl (drop 2 (split_nl patch))"

text \<open>
  The four assignments to \<^verbatim>\<open>type\<close>, in the order of the source: each later test
  overrides the earlier ones.
\<close>

definition change_type_of :: "string option \<Rightarrow> string option \<Rightarrow> change_type" where
  "change_type_of aOID bOID =
     (let ty = Equal;
          ty = (if aOID \<noteq> bOID then Modify else ty);
          ty = (if aOID = None then Add else ty);
          ty = (if bOID = None then Remove else ty)
      in ty)"

text \<open>
  The \<^verbatim>\<open>map\<close> callback. \<open>createPatch\<close> is the diff tool (\<^verbatim>\<open>Diff.createPatch\<close>, an
  imported library routine): it is a parameter, called with the label and the two texts.
  The result is \<open>Inl\<close> for a \<^verbatim>\<open>throw\<close>, \<open>Inr None\<close> for a bare \<^verbatim>\<open>return\<close> and
  \<open>Inr (Some r)\<close> for a returned record. The \<^verbatim>\<open>switch\<close> over \<^verbatim>\<open>type\<close> is a case
  distinction over the four values the variable can hold, so its \<^verbatim>\<open>default\<close> branch
  has no counterpart.
\<close>

definition map_fn ::
  "(string \<Rightarrow> string \<Rightarrow> string \<Rightarrow> string) \<Rightarrow> string \<Rightarrow> entry option \<Rightarrow> entry option
     \<Rightarrow> error + change_record option" where
  "map_fn createPatch filepath A B =
     (if filepath = ''.'' then Inr None
      else if map_option etype A = Some Tree \<or> map_option etype B = Some Tree then Inr None
      else
        let aMode = Option.bind A mode;
            bMode = Option.bind B mode;
            aOID = map_option oid A;
            bOID = map_option oid B;
            ty = change_type_of aOID bOID
        in if aOID = None \<and> bOID = None then Inl (IntegrityError filepath)
           else (case ty of
             Add \<Rightarrow>
               let content = Option.bind B content;
                   patch = createPatch filepath [] (or_empty content)
               in Inr (Some \<lparr>diff = removeNoiseFromPatch patch,
                     new_path = Some filepath,
                     old_path = None,
                     a_mode = (if truthy aMode then Some (js_String aMode) else None),
                     b_mode = (if truthy bMode then Some (js_String bMode) else None),
                     new_file = True,
                     renamed_file = False,
                     deleted_file = False\<rparr>)
           | Modify \<Rightarrow>
               let aContent = Option.bind A content;
                   bContent = Option.bind B content;
                   patch = createPatch filepath (or_empty aContent) (or_empty bContent)
               in Inr (Some \<lparr>diff = removeNoiseFromPatch patch,
                     new_path = Some filepath,
                     old_path = Some filepath,
                     a_mode = (if truthy aMode then Some (js_String aMode) else None),
                     b_mode = (if truthy bMode then Some (js_String aMode) else None),
                     new_file = False,
                     renamed_file = False,
                     deleted_file = False\<rparr>)
           | Remove \<Rightarrow>
               let aContent = Option.bind A content;
                   bContent = Option.bind B content;
                   patch = createPatch filepath (or_empty aContent) (or_empty bContent)
               in Inr (Some \<lparr>diff = removeNoiseFromPatch patch,
                     new_path = None,
                     old_path = Some filepath,
                     a_mode = (if truthy aMode then Some (js_String aMode) else None),
                     b_mode = (if truthy bMode then Some (js_String aMode) else None),
                     new_file = False,
                     renamed_file = False,
                     deleted_file = True\<rparr>)
           | Equal \<Rightarrow> Inr None))"

text \<open>The text a side contributes to the patch: \<^verbatim>\<open>content ?? ""\<close>, empty for an absent side.\<close>

definition text_of :: "entry option \<Rightarrow> string" where
  "text_of E = or_empty (Option.bind E content)"

section \<open>Removing the first lines of a text, as the specification words it\<close>

text \<open>
  The specification asks to strip exactly the first two lines of the patch and to keep
  everything after them. \<open>drop_line\<close> removes one line from a text: everything up to
  and including the first line feed (the whole text when there is none).
  \<open>strip_first_two_lines\<close> does it twice.
\<close>

definition drop_line :: "string \<Rightarrow> string" where
  "drop_line s = drop 1 (dropWhile (\<lambda>c. c \<noteq> newline) s)"

definition strip_first_two_lines :: "string \<Rightarrow> string" where
  "strip_first_two_lines s = drop_line (drop_line s)"

section \<open>The walk\<close>

text \<open>
  The traversal itself is \<^verbatim>\<open>git.walk\<close>, an imported library routine that is not among
  the sources; the source only passes it the two trees and the callback. The
  definitions of this section follow sections 4.1 and 7 of the specification.
\<close>

text \<open>
  Modelled from the spec: what the walker supplies at one path, namely the path and both
  sides' entries, each an entry or the absence marker.
\<close>

type_synonym visit = "string \<times> entry option \<times> entry option"

text \<open>
  Modelled from the spec: a tree snapshot, a mapping from path to entry (here an
  association list; the root directory is the path \<^verbatim>\<open>.\<close>).
\<close>

type_synonym tree = "(string \<times> entry) list"

text \<open>
  Modelled from the spec: running the callback over the visited paths. The record the
  callback returns, if any, is appended to the result, in the order of the visits; an
  error raised at one path aborts the whole walk, and no partial result is returned.
\<close>

fun walk_visits ::
  "(string \<Rightarrow> string \<Rightarrow> string \<Rightarrow> string) \<Rightarrow> visit list \<Rightarrow> error + change_record list" where
  "walk_visits createPatch [] = Inr []"
| "walk_visits createPatch ((filepath, A, B) # vs) =
     (case map_fn createPatch filepath A B of
        Inl e \<Rightarrow> Inl e
      | Inr x \<Rightarrow>
          (case walk_visits createPatch vs of
             Inl e \<Rightarrow> Inl e
           | Inr rs \<Rightarrow> Inr (case x of None \<Rightarrow> rs | Some r \<Rightarrow> r # rs)))"

text \<open>
  Modelled from the spec: the names along a path, the pieces between the separators
  \<^verbatim>\<open>/\<close>. The root path \<^verbatim>\<open>.\<close> has no name along it.
\<close>

fun split_slash :: "string \<Rightarrow> string list" where
  "split_slash [] = [[]]"
| "split_slash (c # cs) =
     (if c = CHR ''/'' then [] # split_slash cs
      else (case split_slash cs of [] \<Rightarrow> [[c]] | l # ls \<Rightarrow> (c # l) # ls))"

definition path_names :: "string \<Rightarrow> string list" where
  "path_names p = (if p = ''.'' then [] else split_slash p)"

text \<open>
  Modelled from the spec: the paths of a walk, the union of the paths of the two
  snapshots, each exactly once, in the order of section 4.1: depth first, and
  lexicographic within a directory. A directory comes before what it holds and the
  entries of one directory come in the order of their names, which is the lexicographic
  order of the lists of names along the paths; the root comes first.
\<close>

definition paths :: "tree \<Rightarrow> tree \<Rightarrow> string list" where
  "paths treeA treeB = sort_key path_names (remdups (map fst treeA @ map fst treeB))"

text \<open>
  Modelled from the spec: the visits of a walk. At each path the walker looks the path up
  in both snapshots.
\<close>

definition visits :: "tree \<Rightarrow> tree \<Rightarrow> visit list" where
  "visits treeA treeB = map (\<lambda>p. (p, map_of treeA p, map_of treeB p)) (paths treeA treeB)"

text \<open>
  Modelled from the spec: the walk of two tree snapshots, \<^verbatim>\<open>git.walk\<close> with the two
  trees and the callback of the source.
\<close>

definition walk ::
  "(string \<Rightarrow> string \<Rightarrow> string \<Rightarrow> string) \<Rightarrow> tree \<Rightarrow> tree \<Rightarrow> error + change_record list" where
  "walk createPatch treeA treeB = walk_visits createPatch (visits treeA treeB)"

section \<open>A patch generator for concrete evaluations\<close>

text \<open>
  The theorems below hold for every diff tool. Where the model is evaluated at a
  concrete input, this fixed generator takes the tool's place: two lines naming the
  label, then the old text as a deleted line and the new text as an added line.
\<close>

definition sample_patch :: "string \<Rightarrow> string \<Rightarrow> string \<Rightarrow> string" where
  "sample_patch fileName oldStr newStr =
     ''--- '' @ fileName @ newline # ''+++ '' @ fileName @ newline #
     CHR ''-'' # oldStr @ newline # CHR ''+'' # newStr"

section \<open>The callback, case by case\<close>

lemma change_type_of_cases:
  "change_type_of a b =
     (if b = None then Remove else if a = None then Add else if a = b then Equal else Modify)"
  by (simp add: change_type_of_def)

lemma map_fn_root: "map_fn createPatch ''.'' A B = Inr None"
  by (simp add: map_fn_def)

lemma map_fn_tree:
  "map_option etype A = Some Tree \<or> map_option etype B = Some Tree
     \<Longrightarrow> map_fn createPatch filepath A B = Inr None"
  by (simp add: map_fn_def)

lemma map_fn_absent:
  "filepath \<noteq> ''.'' \<Longrightarrow> map_fn createPatch filepath None None = Inl (IntegrityError filepath)"
  by (simp add: map_fn_def)

lemma map_fn_add:
  "filepath \<noteq> ''.'' \<Longrightarrow> etype b = Blob \<Longrightarrow>
   map_fn createPatch filepath None (Some b) =
     Inr (Some \<lparr>diff = removeNoiseFromPatch (createPatch filepath [] (or_empty (content b))),
       new_path = Some filepath, old_path = None,
       a_mode = None,
       b_mode = (if truthy (mode b) then Some (js_String (mode b)) else None),
       new_file = True, renamed_file = False, deleted_file = False\<rparr>)"
  by (simp add: map_fn_def change_type_of_cases truthy_def Let_def)

lemma map_fn_remove:
  "filepath \<noteq> ''.'' \<Longrightarrow> etype a = Blob \<Longrightarrow>
   map_fn createPatch filepath (Some a) None =
     Inr (Some \<lparr>diff = removeNoiseFromPatch (createPatch filepath (or_empty (content a)) []),
       new_path = None, old_path = Some filepath,
       a_mode = (if truthy (mode a) then Some (js_String (mode a)) else None),
       b_mode = None,
       new_file = False, renamed_file = False, deleted_file = True\<rparr>)"
  by (simp add: map_fn_def change_type_of_cases truthy_def or_empty_def Let_def)

lemma map_fn_modify:
  "filepath \<noteq> ''.'' \<Longrightarrow> etype a = Blob \<Longrightarrow> etype b = Blob \<Longrightarrow> oid a \<noteq> oid b \<Longrightarrow>
   map_fn createPatch filepath (Some a) (Some b) =
     Inr (Some \<lparr>diff = removeNoiseFromPatch
                  (createPatch filepath (or_empty (content a)) (or_empty (content b))),
       new_path = Some filepath, old_path = Some filepath,
       a_mode = (if truthy (mode a) then Some (js_String (mode a)) else None),
       b_mode = (if truthy (mode b) then Some (js_String (mode a)) else None),
       new_file = False, renamed_file = False, deleted_file = False\<rparr>)"
  by (simp add: map_fn_def change_type_of_cases Let_def)

lemma map_fn_equal:
  "oid a = oid b \<Longrightarrow> map_fn createPatch filepath (Some a) (Some b) = Inr None"
  by (simp add: map_fn_def change_type_of_cases Let_def)

lemma not_Tree [simp]: "(t \<noteq> Tree) = (t = Blob)"
  by (cases t) simp_all

text \<open>Every returned record comes from one of the three branches of the \<^verbatim>\<open>switch\<close>.\<close>

lemma map_fn_record_cases:
  assumes "map_fn createPatch filepath A B = Inr (Some r)"
  obtains
    (add) b where "A = None" "B = Some b" "filepath \<noteq> ''.''" "etype b = Blob"
      "r = \<lparr>diff = removeNoiseFromPatch (createPatch filepath [] (or_empty (content b))),
         new_path = Some filepath, old_path = None,
         a_mode = None,
         b_mode = (if truthy (mode b) then Some (js_String (mode b)) else None),
         new_file = True, renamed_file = False, deleted_file = False\<rparr>"
  | (remove) a where "A = Some a" "B = None" "filepath \<noteq> ''.''" "etype a = Blob"
      "r = \<lparr>diff = removeNoiseFromPatch (createPatch filepath (or_empty (content a)) []),
         new_path = None, old_path = Some filepath,
         a_mode = (if truthy (mode a) then Some (js_String (mode a)) else None),
         b_mode = None,
         new_file = False, renamed_file = False, deleted_file = True\<rparr>"
  | (modify) a b where "A = Some a" "B = Some b" "filepath \<noteq> ''.''"
      "etype a = Blob" "etype b = Blob" "oid a \<noteq> oid b"
      "r = \<lparr>diff = removeNoiseFromPatch
                  (createPatch filepath (or_empty (content a)) (or_empty (content b))),
         new_path = Some filepath, old_path = Some filepath,
         a_mode = (if truthy (mode a) then Some (js_String (mode a)) else None),
         b_mode = (if truthy (mode b) then Some (js_String (mode a)) else None),
         new_file = False, renamed_file = False, deleted_file = False\<rparr>"
proof -
  from assms have nr: "filepath \<noteq> ''.''"
    by (auto simp: map_fn_root)
  have ta: "map_option etype A \<noteq> Some Tree"
  proof
    assume "map_option etype A = Some Tree"
    then have "map_fn createPatch filepath A B = Inr None" by (simp add: map_fn_tree)
    with assms show False by simp
  qed
  have tb: "map_option etype B \<noteq> Some Tree"
  proof
    assume "map_option etype B = Some Tree"
    then have "map_fn createPatch filepath A B = Inr None" by (simp add: map_fn_tree)
    with assms show False by simp
  qed
  show thesis
  proof (cases A)
    case None
    note A = this
    show thesis
    proof (cases B)
      case None
      with A nr assms show thesis by (simp add: map_fn_absent)
    next
      case (Some b)
      with tb have "etype b = Blob" by simp
      with A Some nr assms add show thesis by (simp add: map_fn_add)
    qed
  next
    case (Some a)
    note A = this
    with ta have ea: "etype a = Blob" by simp
    show thesis
    proof (cases B)
      case None
      with A ea nr assms remove show thesis by (simp add: map_fn_remove)
    next
      case (Some b)
      with tb have eb: "etype b = Blob" by simp
      show thesis
      proof (cases "oid a = oid b")
        case True
        with A Some assms show thesis by (simp add: map_fn_equal)
      next
        case False
        with A Some ea eb nr assms modify show thesis by (simp add: map_fn_modify)
      qed
    qed
  qed
qed

section \<open>Splitting and joining lines\<close>

lemma split_nl_ne [simp]: "split_nl s \<noteq> []"
  by (induction s) (auto split: list.splits)

lemma join_split [simp]: "join_nl (split_nl s) = s"
proof (induction s)
  case Nil
  show ?case by simp
next
  case (Cons c cs)
  obtain l ls where sp: "split_nl cs = l # ls"
    by (cases "split_nl cs") simp_all
  with Cons show ?case
    by (cases ls) auto
qed

lemma tl_split:
  "tl (split_nl s) = (if newline \<in> set s then split_nl (drop_line s) else [])"
proof (induction s)
  case Nil
  show ?case by simp
next
  case (Cons c cs)
  obtain l ls where sp: "split_nl cs = l # ls"
    by (cases "split_nl cs") simp_all
  with Cons show ?case
    by (auto simp: drop_line_def)
qed

lemma drop_line_no_nl: "newline \<notin> set s \<Longrightarrow> drop_line s = []"
proof -
  assume "newline \<notin> set s"
  then have "dropWhile (\<lambda>c. c \<noteq> newline) s = []"
    by (induction s) auto
  then show ?thesis unfolding drop_line_def by (simp only: drop_Nil)
qed

lemma drop2_split:
  "drop 2 (split_nl p) =
     (if newline \<in> set p \<and> newline \<in> set (drop_line p)
      then split_nl (drop_line (drop_line p)) else [])"
proof -
  have "drop 2 (split_nl p) = tl (tl (split_nl p))"
    by (simp add: numeral_2_eq_2 drop_Suc)
  then show ?thesis
    by (simp add: tl_split)
qed

lemma removeNoise_strip: "removeNoiseFromPatch p = strip_first_two_lines p"
proof (cases "newline \<in> set p")
  case True
  then show ?thesis
    by (cases "newline \<in> set (drop_line p)")
      (simp_all add: removeNoiseFromPatch_def strip_first_two_lines_def drop2_split
        drop_line_no_nl)
next
  case False
  then have "drop_line p = []" by (rule drop_line_no_nl)
  with False show ?thesis
    by (simp add: removeNoiseFromPatch_def strip_first_two_lines_def drop2_split
        drop_line_def)
qed

lemma removeNoise_lines:
  assumes "2 < length (split_nl p)"
  shows "split_nl (removeNoiseFromPatch p) = drop 2 (split_nl p)"
proof -
  from assms have "drop 2 (split_nl p) \<noteq> []" by simp
  then have "drop 2 (split_nl p) = split_nl (drop_line (drop_line p))"
    by (simp add: drop2_split split: if_splits)
  then show ?thesis
    by (simp add: removeNoise_strip strip_first_two_lines_def)
qed

lemma removeNoise_short:
  assumes "length (split_nl p) \<le> 2"
  shows "removeNoiseFromPatch p = []"
  using assms by (simp add: removeNoiseFromPatch_def)

lemma map_fn_diff:
  assumes "map_fn createPatch filepath A B = Inr (Some r)"
  shows "diff r = removeNoiseFromPatch (createPatch filepath (text_of A) (text_of B))"
  using assms by (cases rule: map_fn_record_cases) (simp_all add: text_of_def or_empty_def)

lemma map_fn_Inl_iff:
  "map_fn createPatch filepath A B = Inl e
     \<longleftrightarrow> filepath \<noteq> ''.'' \<and> A = None \<and> B = None \<and> e = IntegrityError filepath"
proof (cases "filepath = ''.''")
  case True
  then show ?thesis by (simp add: map_fn_root)
next
  case nr: False
  show ?thesis
  proof (cases "map_option etype A = Some Tree \<or> map_option etype B = Some Tree")
    case True
    then have "map_fn createPatch filepath A B = Inr None" by (rule map_fn_tree)
    with True show ?thesis by auto
  next
    case False
    then have ta: "\<And>a. A = Some a \<Longrightarrow> etype a = Blob" and tb: "\<And>b. B = Some b \<Longrightarrow> etype b = Blob"
      by auto
    show ?thesis
    proof (cases A)
      case None
      note A = this
      show ?thesis
      proof (cases B)
        case None
        with A nr show ?thesis by (auto simp: map_fn_absent)
      next
        case (Some b)
        with A nr tb [OF Some] show ?thesis by (simp add: map_fn_add)
      qed
    next
      case (Some a)
      note A = this
      show ?thesis
      proof (cases B)
        case None
        with A nr ta [OF A] show ?thesis by (simp add: map_fn_remove)
      next
        case (Some b)
        with A nr ta [OF A] tb [OF Some] show ?thesis
          by (cases "oid a = oid b") (simp_all add: map_fn_modify map_fn_equal)
      qed
    qed
  qed
qed

section \<open>The walk over a list of visits\<close>

lemma walk_visits_fails_iff:
  "(\<exists>e. walk_visits createPatch vs = Inl e)
     \<longleftrightarrow> (\<exists>(p, A, B) \<in> set vs. \<exists>e. map_fn createPatch p A B = Inl e)"
proof (induction vs)
  case Nil
  show ?case by simp
next
  case (Cons v vs)
  obtain p A B where v: "v = (p, A, B)" by (cases v) auto
  show ?case
  proof (cases "map_fn createPatch p A B")
    case (Inl e)
    with v show ?thesis by auto
  next
    case (Inr x)
    with v Cons show ?thesis
      by (cases "walk_visits createPatch vs") auto
  qed
qed

lemma walk_visits_error_origin:
  "walk_visits createPatch vs = Inl e
     \<Longrightarrow> \<exists>(p, A, B) \<in> set vs. map_fn createPatch p A B = Inl e"
proof (induction vs)
  case Nil
  then show ?case by simp
next
  case (Cons v vs)
  obtain p A B where v: "v = (p, A, B)" by (cases v) auto
  show ?case
  proof (cases "map_fn createPatch p A B")
    case (Inl e')
    with v Cons.prems show ?thesis by auto
  next
    case (Inr x)
    with v Cons show ?thesis
      by (cases "walk_visits createPatch vs") auto
  qed
qed

lemma walk_visits_no_records:
  "(\<And>p A B. (p, A, B) \<in> set vs \<Longrightarrow> map_fn createPatch p A B = Inr None)
     \<Longrightarrow> walk_visits createPatch vs = Inr []"
proof (induction vs)
  case Nil
  show ?case by simp
next
  case (Cons v vs)
  obtain p A B where v: "v = (p, A, B)" by (cases v) auto
  from Cons.prems v have "map_fn createPatch p A B = Inr None" by simp
  moreover from Cons have "walk_visits createPatch vs = Inr []" by simp
  ultimately show ?case using v by simp
qed

section \<open>Concrete evaluations\<close>

lemma sample_add:
  "map_fn sample_patch ''page-1.md'' None
     (Some \<lparr>etype = Blob, mode = Some 33188, oid = ''b1'',
        content = Some ''# This is the first page''\<rparr>)
   = Inr (Some \<lparr>diff = ''-'' @ newline # ''+# This is the first page'',
       new_path = Some ''page-1.md'', old_path = None,
       a_mode = None, b_mode = Some ''33188'',
       new_file = True, renamed_file = False, deleted_file = False\<rparr>)"
  by (simp add: map_fn_add truthy_def js_String_def decimal_def digits.simps
      removeNoiseFromPatch_def sample_patch_def or_empty_def newline_def)

lemma sample_modify:
  "map_fn sample_patch ''page-1.md''
     (Some \<lparr>etype = Blob, mode = Some 33188, oid = ''a1'', content = Some ''X''\<rparr>)
     (Some \<lparr>etype = Blob, mode = Some 33261, oid = ''b1'', content = Some ''Y''\<rparr>)
   = Inr (Some \<lparr>diff = ''-X'' @ newline # ''+Y'',
       new_path = Some ''page-1.md'', old_path = Some ''page-1.md'',
       a_mode = Some ''33188'', b_mode = Some ''33188'',
       new_file = False, renamed_file = False, deleted_file = False\<rparr>)"
  by (simp add: map_fn_modify truthy_def js_String_def decimal_def digits.simps
      removeNoiseFromPatch_def sample_patch_def or_empty_def newline_def)

lemma sample_remove:
  "map_fn sample_patch ''page-1.md''
     (Some \<lparr>etype = Blob, mode = Some 33188, oid = ''a1'', content = Some ''X''\<rparr>) None
   = Inr (Some \<lparr>diff = ''-X'' @ newline # ''+'',
       new_path = None, old_path = Some ''page-1.md'',
       a_mode = Some ''33188'', b_mode = None,
       new_file = False, renamed_file = False, deleted_file = True\<rparr>)"
  by (simp add: map_fn_remove truthy_def js_String_def decimal_def digits.simps
      removeNoiseFromPatch_def sample_patch_def or_empty_def newline_def)

lemma sample_modify_zero:
  "map_fn sample_patch ''page-1.md''
     (Some \<lparr>etype = Blob, mode = Some 0, oid = ''a1'', content = Some ''X''\<rparr>)
     (Some \<lparr>etype = Blob, mode = Some 33188, oid = ''b1'', content = Some ''Y''\<rparr>)
   = Inr (Some \<lparr>diff = ''-X'' @ newline # ''+Y'',
       new_path = Some ''page-1.md'', old_path = Some ''page-1.md'',
       a_mode = None, b_mode = Some ''0'',
       new_file = False, renamed_file = False, deleted_file = False\<rparr>)"
  by (simp add: map_fn_modify truthy_def js_String_def decimal_def digits.simps
      removeNoiseFromPatch_def sample_patch_def or_empty_def newline_def)

lemma sample_modify_absent:
  "map_fn sample_patch ''page-1.md''
     (Some \<lparr>etype = Blob, mode = None, oid = ''a1'', content = Some ''X''\<rparr>)
     (Some \<lparr>etype = Blob, mode = Some 33188, oid = ''b1'', content = Some ''Y''\<rparr>)
   = Inr (Some \<lparr>diff = ''-X'' @ newline # ''+Y'',
       new_path = Some ''page-1.md'', old_path = Some ''page-1.md'',
       a_mode = None, b_mode = Some ''undefined'',
       new_file = False, renamed_file = False, deleted_file = False\<rparr>)"
  by (simp add: map_fn_modify truthy_def js_String_def decimal_def digits.simps
      removeNoiseFromPatch_def sample_patch_def or_empty_def newline_def)

text \<open>
  The order of a walk on an example: the root, then \<^verbatim>\<open>B\<close>, then the directory \<^verbatim>\<open>a\<close>
  followed by what it holds, then \<^verbatim>\<open>a-b\<close>.
\<close>

lemma paths_order_example:
  "paths
     [(''a-b'', \<lparr>etype = Blob, mode = Some 33188, oid = ''o1'', content = Some ''X''\<rparr>),
      (''a/c'', \<lparr>etype = Blob, mode = Some 33188, oid = ''o2'', content = Some ''X''\<rparr>),
      (''a'', \<lparr>etype = Tree, mode = Some 16384, oid = ''t1'', content = None\<rparr>),
      (''.'', \<lparr>etype = Tree, mode = Some 16384, oid = ''t0'', content = None\<rparr>)]
     [(''.'', \<lparr>etype = Tree, mode = Some 16384, oid = ''t2'', content = None\<rparr>),
      (''a'', \<lparr>etype = Tree, mode = Some 16384, oid = ''t3'', content = None\<rparr>),
      (''a/b'', \<lparr>etype = Blob, mode = Some 33188, oid = ''o3'', content = Some ''Y''\<rparr>),
      (''B'', \<lparr>etype = Blob, mode = Some 33188, oid = ''o4'', content = Some ''Y''\<rparr>)]
   = [''.'', ''B'', ''a'', ''a/b'', ''a/c'', ''a-b'']"
  by code_simp

lemma sample_abort:
  "walk_visits sample_patch
     [(''.'', None, None),
      (''page-1.md'', None,
         Some \<lparr>etype = Blob, mode = Some 33188, oid = ''b1'',
           content = Some ''# This is the first page''\<rparr>),
      (''ghost'', None, None)]
   = Inl (IntegrityError ''ghost'')"
  by (simp add: map_fn_root map_fn_add map_fn_absent)

section \<open>Classification\<close>

text \<open>
  C1. At a path other than the root where neither side is a directory, the kind of
  change depends on the two content identities only: equal identities give no record,
  an identity on the B side alone gives an add record, an identity on the A side alone
  gives a remove record, and two different identities give a modify record.
\<close>

theorem C1_classification:
  assumes "filepath \<noteq> ''.''"
    and "map_option etype A \<noteq> Some Tree"
    and "map_option etype B \<noteq> Some Tree"
  shows "(map_option oid A = Some x \<and> map_option oid B = Some x
            \<longrightarrow> map_fn createPatch filepath A B = Inr None)
       \<and> (map_option oid A = None \<and> map_option oid B = Some y
            \<longrightarrow> (\<exists>r. map_fn createPatch filepath A B = Inr (Some r)
                  \<and> new_file r \<and> \<not> deleted_file r
                  \<and> old_path r = None \<and> new_path r = Some filepath))
       \<and> (map_option oid A = Some x \<and> map_option oid B = None
            \<longrightarrow> (\<exists>r. map_fn createPatch filepath A B = Inr (Some r)
                  \<and> deleted_file r \<and> \<not> new_file r
                  \<and> old_path r = Some filepath \<and> new_path r = None))
       \<and> (map_option oid A = Some x \<and> map_option oid B = Some y \<and> x \<noteq> y
            \<longrightarrow> (\<exists>r. map_fn createPatch filepath A B = Inr (Some r)
                  \<and> \<not> new_file r \<and> \<not> deleted_file r
                  \<and> old_path r = Some filepath \<and> new_path r = Some filepath))"
proof (cases A)
  case None
  note A = this
  show ?thesis
  proof (cases B)
    case None
    with A show ?thesis by simp
  next
    case (Some b)
    with A assms show ?thesis by (simp add: map_fn_add)
  qed
next
  case (Some a)
  note A = this
  show ?thesis
  proof (cases B)
    case None
    with A assms show ?thesis by (simp add: map_fn_remove)
  next
    case (Some b)
    with A assms show ?thesis by (simp add: map_fn_modify map_fn_equal)
  qed
qed


theorem C1_classification_witness:
  "''page-1.md'' \<noteq> ''.''
   \<and> map_fn sample_patch ''page-1.md'' (Some \<lparr>etype = Blob, mode = Some 33188, oid = ''a1'', content = Some ''X''\<rparr>) (Some \<lparr>etype = Blob, mode = Some 33261, oid = ''a1'', content = Some ''X''\<rparr>) = Inr None
   \<and> (\<exists>r. map_fn sample_patch ''page-1.md'' None (Some \<lparr>etype = Blob, mode = Some 33261, oid = ''b1'', content = Some ''Y''\<rparr>) = Inr (Some r)
        \<and> new_file r \<and> \<not> deleted_file r
        \<and> old_path r = None \<and> new_path r = Some ''page-1.md'')
   \<and> (\<exists>r. map_fn sample_patch ''page-1.md'' (Some \<lparr>etype = Blob, mode = Some 33188, oid = ''a1'', content = Some ''X''\<rparr>) None = Inr (Some r)
        \<and> deleted_file r \<and> \<not> new_file r
        \<and> old_path r = Some ''page-1.md'' \<and> new_path r = None)
   \<and> (\<exists>r. map_fn sample_patch ''page-1.md'' (Some \<lparr>etype = Blob, mode = Some 33188, oid = ''a1'', content = Some ''X''\<rparr>) (Some \<lparr>etype = Blob, mode = Some 33261, oid = ''b1'', content = Some ''Y''\<rparr>) = Inr (Some r)
        \<and> \<not> new_file r \<and> \<not> deleted_file r
        \<and> old_path r = Some ''page-1.md'' \<and> new_path r = Some ''page-1.md'')"
  using
    C1_classification [where filepath = "''page-1.md''" and createPatch = sample_patch
      and A = "Some \<lparr>etype = Blob, mode = Some 33188, oid = ''a1'', content = Some ''X''\<rparr>" and B = "Some \<lparr>etype = Blob, mode = Some 33261, oid = ''a1'', content = Some ''X''\<rparr>" and x = "''a1''" and y = "''a1''"]
    C1_classification [where filepath = "''page-1.md''" and createPatch = sample_patch
      and A = None and B = "Some \<lparr>etype = Blob, mode = Some 33261, oid = ''b1'', content = Some ''Y''\<rparr>" and x = "''a1''" and y = "''b1''"]
    C1_classification [where filepath = "''page-1.md''" and createPatch = sample_patch
      and A = "Some \<lparr>etype = Blob, mode = Some 33188, oid = ''a1'', content = Some ''X''\<rparr>" and B = None and x = "''a1''" and y = "''b1''"]
    C1_classification [where filepath = "''page-1.md''" and createPatch = sample_patch
      and A = "Some \<lparr>etype = Blob, mode = Some 33188, oid = ''a1'', content = Some ''X''\<rparr>" and B = "Some \<lparr>etype = Blob, mode = Some 33261, oid = ''b1'', content = Some ''Y''\<rparr>" and x = "''a1''" and y = "''b1''"]
  by simp

section \<open>The stored patch body\<close>

text \<open>
  C2. The diff field of every returned record is the patch the diff tool produces for
  the old and the new text under the label of the path, without its first two lines:
  the text that follows the second line feed, and, whenever the patch has more than two
  lines, line for line the lines of the patch from the third on.
\<close>

theorem C2_diff_field:
  assumes "map_fn createPatch filepath A B = Inr (Some r)"
  shows "diff r = strip_first_two_lines (createPatch filepath (text_of A) (text_of B))
       \<and> (2 < length (split_nl (createPatch filepath (text_of A) (text_of B)))
            \<longrightarrow> split_nl (diff r)
                = drop 2 (split_nl (createPatch filepath (text_of A) (text_of B))))"
  using map_fn_diff [OF assms] by (simp add: removeNoise_strip [symmetric] removeNoise_lines)

theorem C2_diff_field_witness:
  "map_fn sample_patch ''page-1.md''
     (Some \<lparr>etype = Blob, mode = Some 33188, oid = ''a1'', content = Some ''X''\<rparr>)
     (Some \<lparr>etype = Blob, mode = Some 33261, oid = ''b1'', content = Some ''Y''\<rparr>)
   = Inr (Some \<lparr>diff = ''-X'' @ newline # ''+Y'',
       new_path = Some ''page-1.md'', old_path = Some ''page-1.md'',
       a_mode = Some ''33188'', b_mode = Some ''33188'',
       new_file = False, renamed_file = False, deleted_file = False\<rparr>)
   \<and> ''-X'' @ newline # ''+Y'' = strip_first_two_lines (sample_patch ''page-1.md'' ''X'' ''Y'')
   \<and> split_nl (sample_patch ''page-1.md'' ''X'' ''Y'')
       = [''--- page-1.md'', ''+++ page-1.md'', ''-X'', ''+Y'']
   \<and> split_nl (''-X'' @ newline # ''+Y'') = [''-X'', ''+Y'']"
  using C2_diff_field [OF sample_modify] sample_modify
  by (simp add: text_of_def or_empty_def sample_patch_def newline_def)

section \<open>The mode fields\<close>

text \<open>
  C4, as the source has it. In an add record \<open>b_mode\<close> is built from the mode of the
  B side. In a modify record \<open>b_mode\<close> is null when the mode of the B side is absent or
  0, and otherwise it is the text of the mode of the A side, not of the B side. In a
  remove record \<open>b_mode\<close> is null.
\<close>

theorem C4_b_mode:
  assumes "map_fn createPatch filepath A B = Inr (Some r)"
  shows "(new_file r \<longrightarrow>
            b_mode r = (if truthy (Option.bind B mode)
                        then Some (js_String (Option.bind B mode)) else None))
       \<and> (\<not> new_file r \<and> \<not> deleted_file r \<longrightarrow>
            b_mode r = (if truthy (Option.bind B mode)
                        then Some (js_String (Option.bind A mode)) else None))
       \<and> (deleted_file r \<longrightarrow> b_mode r = None)"
  using assms by (cases rule: map_fn_record_cases) simp_all

theorem C4_b_mode_witness:
  "map_fn sample_patch ''page-1.md'' None
     (Some \<lparr>etype = Blob, mode = Some 33188, oid = ''b1'',
        content = Some ''# This is the first page''\<rparr>)
   = Inr (Some \<lparr>diff = ''-'' @ newline # ''+# This is the first page'',
       new_path = Some ''page-1.md'', old_path = None,
       a_mode = None, b_mode = Some ''33188'',
       new_file = True, renamed_file = False, deleted_file = False\<rparr>)
   \<and> Some ''33188'' = Some (js_String (Some 33188))
   \<and> map_fn sample_patch ''page-1.md''
     (Some \<lparr>etype = Blob, mode = Some 33188, oid = ''a1'', content = Some ''X''\<rparr>)
     (Some \<lparr>etype = Blob, mode = Some 33261, oid = ''b1'', content = Some ''Y''\<rparr>)
   = Inr (Some \<lparr>diff = ''-X'' @ newline # ''+Y'',
       new_path = Some ''page-1.md'', old_path = Some ''page-1.md'',
       a_mode = Some ''33188'', b_mode = Some ''33188'',
       new_file = False, renamed_file = False, deleted_file = False\<rparr>)
   \<and> truthy (Some 33261)
   \<and> map_fn sample_patch ''page-1.md''
     (Some \<lparr>etype = Blob, mode = Some 33188, oid = ''a1'', content = Some ''X''\<rparr>) None
   = Inr (Some \<lparr>diff = ''-X'' @ newline # ''+'',
       new_path = None, old_path = Some ''page-1.md'',
       a_mode = Some ''33188'', b_mode = None,
       new_file = False, renamed_file = False, deleted_file = True\<rparr>)"
  using C4_b_mode [OF sample_add] C4_b_mode [OF sample_modify] C4_b_mode [OF sample_remove]
    sample_add sample_modify sample_remove
  by (simp add: truthy_def)

text \<open>
  A file of mode 33188 (octal 100644) that exists on the A side only gives a remove
  record whose \<open>a_mode\<close> is the text of that mode and whose \<open>b_mode\<close> is null: the
  field is not the mode of the A side.
\<close>

theorem C4_counterexample:
  "map_fn sample_patch ''page-1.md''
     (Some \<lparr>etype = Blob, mode = Some 33188, oid = ''a1'', content = Some ''X''\<rparr>) None
   = Inr (Some \<lparr>diff = ''-X'' @ newline # ''+'',
       new_path = None, old_path = Some ''page-1.md'',
       a_mode = Some ''33188'', b_mode = None,
       new_file = False, renamed_file = False, deleted_file = True\<rparr>)
   \<and> None \<noteq> (if truthy (Some 33188) then Some (js_String (Some 33188)) else None)"
  using sample_remove by (simp add: truthy_def)

text \<open>
  C10, as the source has it. \<open>a_mode\<close> is null exactly when the mode of the A side is
  absent or 0, and otherwise it is the decimal text of that mode. \<open>b_mode\<close> is null
  exactly when the mode of the B side is absent or 0. When it is not null, it is the
  decimal text of the mode of the B side in an add record; in a modify record it is
  \<^verbatim>\<open>String\<close> of the mode of the A side: the decimal text of that mode whatever its
  value, and the text \<^verbatim>\<open>undefined\<close> when the A side has no mode.
\<close>

theorem C10_mode_fields:
  assumes "map_fn createPatch filepath A B = Inr (Some r)"
  shows "(a_mode r = None \<longleftrightarrow> Option.bind A mode = None \<or> Option.bind A mode = Some 0)
       \<and> (\<forall>m. Option.bind A mode = Some m \<and> m \<noteq> 0 \<longrightarrow> a_mode r = Some (decimal m))
       \<and> (b_mode r = None \<longleftrightarrow> Option.bind B mode = None \<or> Option.bind B mode = Some 0)
       \<and> (\<forall>m. new_file r \<and> Option.bind B mode = Some m \<and> m \<noteq> 0
              \<longrightarrow> b_mode r = Some (decimal m))
       \<and> (\<not> new_file r \<and> b_mode r \<noteq> None
              \<longrightarrow> b_mode r = Some (case Option.bind A mode of
                                      None \<Rightarrow> ''undefined''
                                    | Some m \<Rightarrow> decimal m))"
  using assms
  by (cases rule: map_fn_record_cases) (auto simp: truthy_def js_String_def split: option.splits)

theorem C10_mode_fields_witness:
  "map_fn sample_patch ''page-1.md'' None
     (Some \<lparr>etype = Blob, mode = Some 33188, oid = ''b1'',
        content = Some ''# This is the first page''\<rparr>)
   = Inr (Some \<lparr>diff = ''-'' @ newline # ''+# This is the first page'',
       new_path = Some ''page-1.md'', old_path = None,
       a_mode = None, b_mode = Some ''33188'',
       new_file = True, renamed_file = False, deleted_file = False\<rparr>)
   \<and> map_fn sample_patch ''page-1.md''
     (Some \<lparr>etype = Blob, mode = Some 33188, oid = ''a1'', content = Some ''X''\<rparr>)
     (Some \<lparr>etype = Blob, mode = Some 33261, oid = ''b1'', content = Some ''Y''\<rparr>)
   = Inr (Some \<lparr>diff = ''-X'' @ newline # ''+Y'',
       new_path = Some ''page-1.md'', old_path = Some ''page-1.md'',
       a_mode = Some ''33188'', b_mode = Some ''33188'',
       new_file = False, renamed_file = False, deleted_file = False\<rparr>)
   \<and> decimal 33188 = ''33188''
   \<and> map_fn sample_patch ''page-1.md''
     (Some \<lparr>etype = Blob, mode = None, oid = ''a1'', content = Some ''X''\<rparr>)
     (Some \<lparr>etype = Blob, mode = Some 33188, oid = ''b1'', content = Some ''Y''\<rparr>)
   = Inr (Some \<lparr>diff = ''-X'' @ newline # ''+Y'',
       new_path = Some ''page-1.md'', old_path = Some ''page-1.md'',
       a_mode = None, b_mode = Some ''undefined'',
       new_file = False, renamed_file = False, deleted_file = False\<rparr>)"
  using C10_mode_fields [OF sample_add] C10_mode_fields [OF sample_modify]
    C10_mode_fields [OF sample_modify_absent]
    sample_add sample_modify sample_modify_absent
  by simp

text \<open>
  A modify record where the A side has mode 0 and the B side mode 33188: \<open>b_mode\<close> is
  the text \<open>0\<close>. It is not null although the mode it encodes is 0, and it is not the
  decimal text of the mode that decided it was not null.
\<close>

theorem C10_counterexample:
  "map_fn sample_patch ''page-1.md''
     (Some \<lparr>etype = Blob, mode = Some 0, oid = ''a1'', content = Some ''X''\<rparr>)
     (Some \<lparr>etype = Blob, mode = Some 33188, oid = ''b1'', content = Some ''Y''\<rparr>)
   = Inr (Some \<lparr>diff = ''-X'' @ newline # ''+Y'',
       new_path = Some ''page-1.md'', old_path = Some ''page-1.md'',
       a_mode = None, b_mode = Some ''0'',
       new_file = False, renamed_file = False, deleted_file = False\<rparr>)
   \<and> Some ''0'' \<noteq> None \<and> Some ''0'' \<noteq> Some (decimal 33188)"
  using sample_modify_zero by (simp add: decimal_def digits.simps)

section \<open>Errors\<close>

text \<open>
  C5. The callback raises an error exactly at a path other than the root where the
  content identity is absent on both sides, and the error is the integrity error of
  that path. A walk over a list of visits fails exactly when one of the visits is at a
  path other than the root, with no directory on either side, where the content
  identity is absent on both sides; the walk then returns the integrity error of such a
  path instead of a list of records.
\<close>

theorem C5_integrity_error:
  "(map_fn createPatch filepath A B = Inl err
      \<longleftrightarrow> filepath \<noteq> ''.'' \<and> map_option oid A = None \<and> map_option oid B = None
          \<and> err = IntegrityError filepath)
   \<and> ((\<exists>e. walk_visits createPatch vs = Inl e)
      \<longleftrightarrow> (\<exists>(p, A, B) \<in> set vs.
            p \<noteq> ''.'' \<and> map_option etype A \<noteq> Some Tree \<and> map_option etype B \<noteq> Some Tree
            \<and> map_option oid A = None \<and> map_option oid B = None))
   \<and> (\<forall>e. walk_visits createPatch vs = Inl e
        \<longrightarrow> (\<exists>p. e = IntegrityError p \<and> p \<noteq> ''.'' \<and> (p, None, None) \<in> set vs))"
proof (intro conjI allI impI)
  show "map_fn createPatch filepath A B = Inl err
      \<longleftrightarrow> filepath \<noteq> ''.'' \<and> map_option oid A = None \<and> map_option oid B = None
          \<and> err = IntegrityError filepath"
    by (simp add: map_fn_Inl_iff)
next
  have "(\<exists>(p, A, B) \<in> set vs. \<exists>e. map_fn createPatch p A B = Inl e)
      \<longleftrightarrow> (\<exists>(p, A, B) \<in> set vs.
            p \<noteq> ''.'' \<and> map_option etype A \<noteq> Some Tree \<and> map_option etype B \<noteq> Some Tree
            \<and> map_option oid A = None \<and> map_option oid B = None)"
    by (auto simp: map_fn_Inl_iff)
  then show "(\<exists>e. walk_visits createPatch vs = Inl e)
      \<longleftrightarrow> (\<exists>(p, A, B) \<in> set vs.
            p \<noteq> ''.'' \<and> map_option etype A \<noteq> Some Tree \<and> map_option etype B \<noteq> Some Tree
            \<and> map_option oid A = None \<and> map_option oid B = None)"
    by (simp only: walk_visits_fails_iff)
next
  fix e assume "walk_visits createPatch vs = Inl e"
  from walk_visits_error_origin [OF this]
  show "\<exists>p. e = IntegrityError p \<and> p \<noteq> ''.'' \<and> (p, None, None) \<in> set vs"
    by (auto simp: map_fn_Inl_iff)
qed

theorem C5_integrity_error_witness:
  "walk_visits sample_patch
     [(''.'', None, None),
      (''page-1.md'', None,
         Some \<lparr>etype = Blob, mode = Some 33188, oid = ''b1'',
           content = Some ''# This is the first page''\<rparr>),
      (''ghost'', None, None)]
   = Inl (IntegrityError ''ghost'')
   \<and> (\<exists>p. IntegrityError ''ghost'' = IntegrityError p \<and> p \<noteq> ''.''
        \<and> (p, None, None) \<in> set [(''.'', None :: entry option, None),
      (''page-1.md'', None,
         Some \<lparr>etype = Blob, mode = Some 33188, oid = ''b1'',
           content = Some ''# This is the first page''\<rparr>),
      (''ghost'', None, None)])"
  by (rule conjI [OF sample_abort
        C5_integrity_error [THEN conjunct2, THEN conjunct2, rule_format, OF sample_abort]])

section \<open>Unchanged paths, the root and directories\<close>

text \<open>
  C6. Two entries with the same content identity give no record, whatever their modes
  are; and the walk of a tree snapshot against itself returns the empty list.
\<close>

theorem C6_equal_identity_no_record:
  "(oid a = oid b \<longrightarrow> map_fn createPatch filepath (Some a) (Some b) = Inr None)
   \<and> walk createPatch t t = Inr []"
proof
  show "oid a = oid b \<longrightarrow> map_fn createPatch filepath (Some a) (Some b) = Inr None"
    by (simp add: map_fn_equal)
next
  show "walk createPatch t t = Inr []"
    unfolding walk_def
  proof (rule walk_visits_no_records)
    fix p A B assume "(p, A, B) \<in> set (visits t t)"
    then have p: "p \<in> fst ` set t" and A: "A = map_of t p" and B: "B = map_of t p"
      by (auto simp: visits_def paths_def)
    from p obtain e where "map_of t p = Some e"
      by (metis domD dom_map_of_conv_image_fst)
    with A B show "map_fn createPatch p A B = Inr None"
      by (simp add: map_fn_equal)
  qed
qed

theorem C6_equal_identity_no_record_witness:
  "map_fn sample_patch ''run.sh''
     (Some \<lparr>etype = Blob, mode = Some 33188, oid = ''c1'', content = Some ''X''\<rparr>)
     (Some \<lparr>etype = Blob, mode = Some 33261, oid = ''c1'', content = Some ''X''\<rparr>) = Inr None
   \<and> walk sample_patch
       [(''.'', \<lparr>etype = Tree, mode = Some 16384, oid = ''t1'', content = None\<rparr>),
        (''page-1.md'', \<lparr>etype = Blob, mode = Some 33188, oid = ''a1'', content = Some ''X''\<rparr>)]
       [(''.'', \<lparr>etype = Tree, mode = Some 16384, oid = ''t1'', content = None\<rparr>),
        (''page-1.md'', \<lparr>etype = Blob, mode = Some 33188, oid = ''a1'', content = Some ''X''\<rparr>)]
     = Inr []"
  using C6_equal_identity_no_record [where createPatch = sample_patch and filepath = "''run.sh''"
      and a = "\<lparr>etype = Blob, mode = Some 33188, oid = ''c1'', content = Some ''X''\<rparr>"
      and b = "\<lparr>etype = Blob, mode = Some 33261, oid = ''c1'', content = Some ''X''\<rparr>"
      and t = "[(''.'', \<lparr>etype = Tree, mode = Some 16384, oid = ''t1'', content = None\<rparr>),
        (''page-1.md'', \<lparr>etype = Blob, mode = Some 33188, oid = ''a1'', content = Some ''X''\<rparr>)]"]
  by simp

text \<open>
  C7. At the root path and at every path where one side is a directory the callback
  returns no record; a returned record is for a path other than the root where every
  entry there is a blob.
\<close>

theorem C7_no_record_for_root_or_directory:
  "(filepath = ''.'' \<or> map_option etype A = Some Tree \<or> map_option etype B = Some Tree
      \<longrightarrow> map_fn createPatch filepath A B = Inr None)
   \<and> (\<forall>r. map_fn createPatch filepath A B = Inr (Some r)
      \<longrightarrow> filepath \<noteq> ''.''
          \<and> (\<forall>a. A = Some a \<longrightarrow> etype a = Blob)
          \<and> (\<forall>b. B = Some b \<longrightarrow> etype b = Blob))"
proof (intro conjI allI impI)
  assume "filepath = ''.'' \<or> map_option etype A = Some Tree \<or> map_option etype B = Some Tree"
  then show "map_fn createPatch filepath A B = Inr None"
    by (auto simp: map_fn_root map_fn_tree)
next
  fix r assume "map_fn createPatch filepath A B = Inr (Some r)"
  then show "filepath \<noteq> ''.''"
    by (cases rule: map_fn_record_cases) simp_all
next
  fix r a assume "map_fn createPatch filepath A B = Inr (Some r)" and "A = Some a"
  then show "etype a = Blob"
    by (cases rule: map_fn_record_cases) simp_all
next
  fix r b assume "map_fn createPatch filepath A B = Inr (Some r)" and "B = Some b"
  then show "etype b = Blob"
    by (cases rule: map_fn_record_cases) simp_all
qed

theorem C7_no_record_for_root_or_directory_witness:
  "map_fn sample_patch ''docs''
     (Some \<lparr>etype = Blob, mode = Some 33188, oid = ''a1'', content = Some ''X''\<rparr>)
     (Some \<lparr>etype = Tree, mode = Some 16384, oid = ''t1'', content = None\<rparr>) = Inr None
   \<and> map_fn sample_patch ''.''
     (Some \<lparr>etype = Tree, mode = Some 16384, oid = ''t0'', content = None\<rparr>)
     (Some \<lparr>etype = Tree, mode = Some 16384, oid = ''t1'', content = None\<rparr>) = Inr None
   \<and> map_fn sample_patch ''page-1.md''
     (Some \<lparr>etype = Blob, mode = Some 33188, oid = ''a1'', content = Some ''X''\<rparr>)
     (Some \<lparr>etype = Blob, mode = Some 33261, oid = ''b1'', content = Some ''Y''\<rparr>)
   = Inr (Some \<lparr>diff = ''-X'' @ newline # ''+Y'',
       new_path = Some ''page-1.md'', old_path = Some ''page-1.md'',
       a_mode = Some ''33188'', b_mode = Some ''33188'',
       new_file = False, renamed_file = False, deleted_file = False\<rparr>)
   \<and> ''page-1.md'' \<noteq> ''.''
   \<and> etype \<lparr>etype = Blob, mode = Some 33188, oid = ''a1'', content = Some ''X''\<rparr> = Blob
   \<and> etype \<lparr>etype = Blob, mode = Some 33261, oid = ''b1'', content = Some ''Y''\<rparr> = Blob"
proof -
  note t = C7_no_record_for_root_or_directory [where createPatch = sample_patch]
  have 1: "map_fn sample_patch ''docs''
     (Some \<lparr>etype = Blob, mode = Some 33188, oid = ''a1'', content = Some ''X''\<rparr>)
     (Some \<lparr>etype = Tree, mode = Some 16384, oid = ''t1'', content = None\<rparr>) = Inr None"
    by (rule t [THEN conjunct1, rule_format]) simp
  have 2: "map_fn sample_patch ''.''
     (Some \<lparr>etype = Tree, mode = Some 16384, oid = ''t0'', content = None\<rparr>)
     (Some \<lparr>etype = Tree, mode = Some 16384, oid = ''t1'', content = None\<rparr>) = Inr None"
    by (rule t [THEN conjunct1, rule_format]) simp
  from t [THEN conjunct2, THEN spec, THEN mp, OF sample_modify]
  have 3: "''page-1.md'' \<noteq> ''.''
    \<and> etype \<lparr>etype = Blob, mode = Some 33188, oid = ''a1'', content = Some ''X''\<rparr> = Blob
    \<and> etype \<lparr>etype = Blob, mode = Some 33261, oid = ''b1'', content = Some ''Y''\<rparr> = Blob"
    by blast
  from 1 2 sample_modify 3 show ?thesis by (intro conjI) blast+
qed

section \<open>The shape of a record\<close>

text \<open>
  C8. In every returned record \<open>renamed_file\<close> is false, \<open>new_path\<close> is null only if
  \<open>deleted_file\<close> is set, \<open>old_path\<close> is null only if \<open>new_file\<close> is set, and exactly
  one of these three holds: \<open>new_file\<close> is set; \<open>deleted_file\<close> is set; neither flag is
  set and the two paths are equal.
\<close>

theorem C8_record_invariant:
  assumes "map_fn createPatch filepath A B = Inr (Some r)"
  shows "\<not> renamed_file r
       \<and> (new_path r = None \<longrightarrow> deleted_file r)
       \<and> (old_path r = None \<longrightarrow> new_file r)
       \<and> length (filter (\<lambda>x. x)
            [new_file r, deleted_file r,
             \<not> new_file r \<and> \<not> deleted_file r \<and> old_path r = new_path r]) = 1"
  using assms by (cases rule: map_fn_record_cases) simp_all

theorem C8_record_invariant_witness:
  "map_fn sample_patch ''page-1.md'' None
     (Some \<lparr>etype = Blob, mode = Some 33188, oid = ''b1'',
        content = Some ''# This is the first page''\<rparr>)
   = Inr (Some \<lparr>diff = ''-'' @ newline # ''+# This is the first page'',
       new_path = Some ''page-1.md'', old_path = None,
       a_mode = None, b_mode = Some ''33188'',
       new_file = True, renamed_file = False, deleted_file = False\<rparr>)
   \<and> length (filter (\<lambda>x. x) [True, False, False]) = 1
   \<and> map_fn sample_patch ''page-1.md''
     (Some \<lparr>etype = Blob, mode = Some 33188, oid = ''a1'', content = Some ''X''\<rparr>)
     (Some \<lparr>etype = Blob, mode = Some 33261, oid = ''b1'', content = Some ''Y''\<rparr>)
   = Inr (Some \<lparr>diff = ''-X'' @ newline # ''+Y'',
       new_path = Some ''page-1.md'', old_path = Some ''page-1.md'',
       a_mode = Some ''33188'', b_mode = Some ''33188'',
       new_file = False, renamed_file = False, deleted_file = False\<rparr>)
   \<and> length (filter (\<lambda>x. x) [False, False, True]) = 1
   \<and> map_fn sample_patch ''page-1.md''
     (Some \<lparr>etype = Blob, mode = Some 33188, oid = ''a1'', content = Some ''X''\<rparr>) None
   = Inr (Some \<lparr>diff = ''-X'' @ newline # ''+'',
       new_path = None, old_path = Some ''page-1.md'',
       a_mode = Some ''33188'', b_mode = None,
       new_file = False, renamed_file = False, deleted_file = True\<rparr>)
   \<and> length (filter (\<lambda>x. x) [False, True, False]) = 1"
  using C8_record_invariant [OF sample_add] C8_record_invariant [OF sample_modify]
    C8_record_invariant [OF sample_remove] sample_add sample_modify sample_remove
  by simp

end
